theory Spec2Isabelle
  imports Main
begin

section \<open>Notes (pylib/anki/notes.py)\<close>

text \<open>
  Python strings are modelled as \<^typ>\<open>string\<close>, a character standing for a code point
  below 256. Python integers are \<^typ>\<open>int\<close>. Exceptions are values of \<open>py_error\<close>; a
  method that may raise returns \<open>py_error + 'a\<close>, with \<open>Inl\<close> for the exception.
\<close>

datatype py_error = IndexError | KeyError string | AssertionError

subsection \<open>Python built-ins used by the code\<close>

text \<open>
  \<open>str.isspace\<close> on one character, for the code points below 256: TAB, LF, VT, FF, CR,
  FS, GS, RS, US, SPACE, NEL and NBSP.
\<close>

definition py_isspace :: "char \<Rightarrow> bool" where
  "py_isspace c =
     (let n = (of_char c :: nat)
      in (9 \<le> n \<and> n \<le> 13) \<or> (28 \<le> n \<and> n \<le> 32) \<or> n = 133 \<or> n = 160)"

text \<open>\<open>s.strip()\<close>: drop the whitespace at both ends.\<close>

definition strip :: "string \<Rightarrow> string" where
  "strip s = rev (dropWhile py_isspace (rev (dropWhile py_isspace s)))"

text \<open>
  \<open>xs[i]\<close> on a list: a negative index counts from the end, an index out of range raises
  IndexError.
\<close>

definition py_index :: "'a list \<Rightarrow> int \<Rightarrow> int option" where
  "py_index xs i =
     (let n = int (length xs); j = (if i < 0 then n + i else i)
      in if 0 \<le> j \<and> j < n then Some j else None)"

definition list_getitem :: "'a list \<Rightarrow> int \<Rightarrow> py_error + 'a" where
  "list_getitem xs i =
     (case py_index xs i of None \<Rightarrow> Inl IndexError | Some j \<Rightarrow> Inr (xs ! nat j))"

definition list_setitem :: "'a list \<Rightarrow> int \<Rightarrow> 'a \<Rightarrow> py_error + 'a list" where
  "list_setitem xs i v =
     (case py_index xs i of None \<Rightarrow> Inl IndexError | Some j \<Rightarrow> Inr (xs[nat j := v]))"

text \<open>
  \<open>s.split(sep)\<close> with a one-character separator. It is the shape of the field splitter
  of \<open>anki.utils\<close>, and serves as a concrete instance of it below.
\<close>

fun split_on :: "char \<Rightarrow> string \<Rightarrow> string list" where
  "split_on sep [] = [[]]"
| "split_on sep (c # cs) =
     (if c = sep then [] # split_on sep cs
      else (case split_on sep cs of
              [] \<Rightarrow> [[c]]
            | w # ws \<Rightarrow> (c # w) # ws))"

subsection \<open>The note and the collection's notes table\<close>

text \<open>
  \<open>BackendNote\<close> is the message exchanged with the backend; \<open>Note\<close> holds the attributes
  that \<open>_load_from_backend_note\<close> sets. The attributes \<open>id\<close>, \<open>mod\<close> and \<open>fields\<close> are named
  \<open>id_note\<close>, \<open>mod_note\<close> and \<open>fields_note\<close>. The field map sends a field name to the pair of its
  ordinal and the field's description, of a type \<open>'f\<close> left open.
\<close>

record BackendNote =
  bn_id :: int
  bn_guid :: string
  bn_ntid :: int
  bn_mtime_secs :: int
  bn_usn :: int
  bn_tags :: "string list"
  bn_fields :: "string list"

record 'f Note =
  id_note :: int
  guid :: string
  mid :: int
  mod_note :: int
  usn :: int
  tags :: "string list"
  fields_note :: "string list"
  fmap :: "string \<rightharpoonup> (int \<times> 'f)"

text \<open>A row of the \<open>notes\<close> table, with the columns that the duplicate check reads.\<close>

record notes_row =
  row_id :: int
  row_mid :: int
  row_csum :: int
  row_flds :: string

text \<open>
  \<open>col.db.list("select flds from notes where csum = ? and id != ? and mid = ?", c, i, m)\<close>:
  the \<open>flds\<close> column of the rows that satisfy the three conditions, in table order.
\<close>

definition select_flds :: "notes_row list \<Rightarrow> int \<Rightarrow> int \<Rightarrow> int \<Rightarrow> string list" where
  "select_flds db c i m =
     map row_flds (filter (\<lambda>r. row_csum r = c \<and> row_id r \<noteq> i \<and> row_mid r = m) db)"

subsection \<open>Dict interface\<close>

definition fieldOrd :: "'f Note \<Rightarrow> string \<Rightarrow> py_error + int" where
  "fieldOrd n key = (case fmap n key of None \<Rightarrow> Inl (KeyError key) | Some (ord, f) \<Rightarrow> Inr ord)"

definition getitem :: "'f Note \<Rightarrow> string \<Rightarrow> py_error + string" where
  "getitem n key =
     (case fieldOrd n key of Inl e \<Rightarrow> Inl e | Inr ord \<Rightarrow> list_getitem (fields_note n) ord)"

definition setitem :: "'f Note \<Rightarrow> string \<Rightarrow> string \<Rightarrow> py_error + 'f Note" where
  "setitem n key v =
     (case fieldOrd n key of
        Inl e \<Rightarrow> Inl e
      | Inr ord \<Rightarrow>
          (case list_setitem (fields_note n) ord v of
             Inl e \<Rightarrow> Inl e
           | Inr fs \<Rightarrow> Inr (n\<lparr>fields_note := fs\<rparr>)))"

subsection \<open>Flush\<close>

text \<open>
  \<open>to_backend_note\<close> first runs the \<open>note_will_flush\<close> hook, which may change the note,
  then builds the message from the note's attributes. The hook and the backend's
  \<open>update_note\<close> are parameters; \<open>'b\<close> is the state of the backend.
\<close>

definition to_backend_note :: "('f Note \<Rightarrow> 'f Note) \<Rightarrow> 'f Note \<Rightarrow> 'f Note \<times> BackendNote" where
  "to_backend_note note_will_flush n =
     (let n' = note_will_flush n
      in (n', \<lparr>bn_id = id_note n', bn_guid = guid n', bn_ntid = mid n',
               bn_mtime_secs = mod_note n', bn_usn = usn n', bn_tags = tags n',
               bn_fields = fields_note n'\<rparr>))"

definition flush ::
  "('f Note \<Rightarrow> 'f Note) \<Rightarrow> (BackendNote \<Rightarrow> 'b \<Rightarrow> 'b) \<Rightarrow> 'f Note \<Rightarrow> 'b \<Rightarrow> py_error + ('f Note \<times> 'b)" where
  "flush note_will_flush update_note n backend =
     (if \<not> (id_note n \<noteq> 0) then Inl AssertionError
      else (case to_backend_note note_will_flush n of
              (n', bn) \<Rightarrow> Inr (n', update_note bn backend)))"

subsection \<open>Unique/duplicate check\<close>

text \<open>
  The result of \<open>dupeOrEmpty\<close>: \<open>Empty\<close> is the return value 1, \<open>Duplicate\<close> is 2 and
  \<open>Unique\<close> is False.
\<close>

datatype dupe_result = Empty | Duplicate | Unique

text \<open>
  \<open>fieldChecksum\<close>, \<open>stripHTMLMedia\<close> and \<open>splitFields\<close> are imported from \<open>anki.utils\<close>
  and are parameters here. \<open>dupe_loop\<close> is the \<open>for\<close> loop over the rows that the query
  returned; \<open>val\<close> is \<open>self.fields[0]\<close>.
\<close>

fun dupe_loop ::
  "(string \<Rightarrow> string) \<Rightarrow> (string \<Rightarrow> string list) \<Rightarrow> string \<Rightarrow> string list \<Rightarrow> py_error + dupe_result" where
  "dupe_loop stripHTMLMedia splitFields val [] = Inr Unique"
| "dupe_loop stripHTMLMedia splitFields val (flds # rest) =
     (case list_getitem (splitFields flds) 0 of
        Inl e \<Rightarrow> Inl e
      | Inr f0 \<Rightarrow>
          if stripHTMLMedia f0 = stripHTMLMedia val then Inr Duplicate
          else dupe_loop stripHTMLMedia splitFields val rest)"

definition dupeOrEmpty ::
  "(string \<Rightarrow> int) \<Rightarrow> (string \<Rightarrow> string) \<Rightarrow> (string \<Rightarrow> string list) \<Rightarrow>
     notes_row list \<Rightarrow> 'f Note \<Rightarrow> py_error + dupe_result" where
  "dupeOrEmpty fieldChecksum stripHTMLMedia splitFields db n =
     (case list_getitem (fields_note n) 0 of
        Inl e \<Rightarrow> Inl e
      | Inr val \<Rightarrow>
          if strip val = [] then Inr Empty
          else
            (let csum = fieldChecksum val
             in dupe_loop stripHTMLMedia splitFields val
                  (select_flds db csum (if id_note n \<noteq> 0 then id_note n else 0) (mid n))))"

section \<open>Media syncing (qt/aqt/mediasync.py)\<close>

subsection \<open>Data\<close>

text \<open>
  The types imported from \<open>anki.rsbackend\<close>. Of the progress kinds only
  \<open>ProgressKind.MediaSyncProgress\<close> is named by the code, of the sync error kinds four,
  of the network error kinds two; one further constructor stands for every other kind.
  An exception carries the text that \<open>str(exc)\<close> gives.
\<close>

record MediaSyncProgress =
  checked :: int
  downloaded_files :: int
  downloaded_deletions :: int
  uploaded_files :: int
  uploaded_deletions :: int

datatype LogEntry = ProgressEntry MediaSyncProgress | StrEntry string

record LogEntryWithTime =
  time :: int
  entry :: LogEntry

datatype ProgressKind = KindMediaSyncProgress | KindOther

record Progress =
  kind :: ProgressKind
  val :: LogEntry

datatype SyncErrorKind =
  AUTH_FAILED | SERVER_ERROR | MEDIA_CHECK_REQUIRED | RESYNC_REQUIRED | SYNC_OTHER

datatype NetworkErrorKind = OFFLINE | TIMEOUT | NETWORK_OTHER

datatype exception =
  Interrupted
| SyncError SyncErrorKind string
| NetworkError NetworkErrorKind string
| DBError string
| OtherException string

text \<open>
  The state that the methods of \<open>MediaSyncer\<close> read and write: the three attributes of
  the object, the profile manager's settings (\<open>mw.pm\<close>), and what the methods hand to
  their surroundings, each as the list of the calls made so far:
  \<open>did_progress\<close> for \<open>gui_hooks.media_sync_did_progress\<close>,
  \<open>did_start_or_stop\<close> for \<open>gui_hooks.media_sync_did_start_or_stop\<close>,
  \<open>background\<close> for the runs given to \<open>taskman.run_in_background\<close> (the key each
  run syncs with), and \<open>warnings\<close> for \<open>showWarning\<close>.
\<close>

record MediaSyncer =
  syncing :: bool
  log :: "LogEntryWithTime list"
  want_stop :: bool
  sync_key :: "string option"
  media_syncing_enabled :: bool
  sync_shard :: "int option"
  did_progress :: "LogEntryWithTime list"
  did_start_or_stop :: "bool list"
  background :: "string list"
  warnings :: "string list"

text \<open>The object after \<open>__init__\<close>, for a profile with the given settings.\<close>

definition init :: "string option \<Rightarrow> bool \<Rightarrow> int option \<Rightarrow> MediaSyncer" where
  "init hkey enabled shard =
     \<lparr>syncing = False, log = [], want_stop = False,
      sync_key = hkey, media_syncing_enabled = enabled, sync_shard = shard,
      did_progress = [], did_start_or_stop = [], background = [], warnings = []\<rparr>"

subsection \<open>Methods\<close>

text \<open>
  \<open>intTime()\<close> is the parameter \<open>now\<close> of every method that reads the clock. The
  translation function \<open>_\<close> is the identity.
\<close>

definition log_and_notify :: "int \<Rightarrow> LogEntry \<Rightarrow> MediaSyncer \<Rightarrow> MediaSyncer" where
  "log_and_notify now e s =
     (let entry_with_time = \<lparr>time = now, entry = e\<rparr>
      in s\<lparr>log := log s @ [entry_with_time],
            did_progress := did_progress s @ [entry_with_time]\<rparr>)"

definition on_rust_progress :: "int \<Rightarrow> bool \<Rightarrow> Progress \<Rightarrow> MediaSyncer \<Rightarrow> MediaSyncer \<times> bool" where
  "on_rust_progress now proceed progress s =
     (if kind progress \<noteq> KindMediaSyncProgress then (s, proceed)
      else
        (let s' = log_and_notify now (val progress) s
         in if want_stop s' then (s', False) else (s', proceed)))"

definition start :: "int \<Rightarrow> MediaSyncer \<Rightarrow> MediaSyncer" where
  "start now s =
     (if syncing s then s
      else
        (case sync_key s of
           None \<Rightarrow> s
         | Some hkey \<Rightarrow>
             if \<not> media_syncing_enabled s
             then log_and_notify now (StrEntry ''Media syncing disabled.'') s
             else
               (let s1 = log_and_notify now (StrEntry ''Media sync starting...'') s;
                    s2 = s1\<lparr>syncing := True\<rparr>;
                    s3 = s2\<lparr>want_stop := False\<rparr>;
                    s4 = s3\<lparr>did_start_or_stop := did_start_or_stop s3 @ [True]\<rparr>
                in s4\<lparr>background := background s4 @ [hkey]\<rparr>)))"

text \<open>\<open>str\<close> of an integer, for the shard in the endpoint.\<close>

fun str_nat :: "nat \<Rightarrow> string" where
  "str_nat n =
     (if n < 10 then [''0123456789'' ! n]
      else str_nat (n div 10) @ [''0123456789'' ! (n mod 10)])"

definition str_int :: "int \<Rightarrow> string" where
  "str_int i = (if i < 0 then CHR ''-'' # str_nat (nat (- i)) else str_nat (nat i))"

definition endpoint :: "MediaSyncer \<Rightarrow> string" where
  "endpoint s =
     (let shard_str = (case sync_shard s of Some shard \<Rightarrow> str_int shard | None \<Rightarrow> [])
      in ''https://sync'' @ shard_str @ ''.ankiweb.net/msync/'')"

definition showWarning :: "string \<Rightarrow> MediaSyncer \<Rightarrow> MediaSyncer" where
  "showWarning text s = s\<lparr>warnings := warnings s @ [text]\<rparr>"

text \<open>
  \<open>_handle_sync_error\<close> returns the state it leaves and, when it raises, the exception
  raised: what it wrote before the \<open>raise\<close> stays written.
\<close>

definition handle_sync_error :: "int \<Rightarrow> exception \<Rightarrow> MediaSyncer \<Rightarrow> MediaSyncer \<times> exception option" where
  "handle_sync_error now exc s =
     (case exc of
        Interrupted \<Rightarrow> (log_and_notify now (StrEntry ''Media sync aborted.'') s, None)
      | _ \<Rightarrow>
        (let s1 = log_and_notify now (StrEntry ''Media sync failed.'') s
         in case exc of
              SyncError k msg \<Rightarrow>
                (case k of
                   AUTH_FAILED \<Rightarrow>
                     (showWarning ''AnkiWeb ID or password was incorrect; please try again.''
                        (s1\<lparr>sync_key := None\<rparr>), None)
                 | SERVER_ERROR \<Rightarrow>
                     (showWarning
                        ''AnkiWeb encountered a problem. Please try again in a few minutes.'' s1,
                      None)
                 | MEDIA_CHECK_REQUIRED \<Rightarrow>
                     (showWarning ''Please use the Tools>Check Media menu option.'' s1, None)
                 | RESYNC_REQUIRED \<Rightarrow>
                     (showWarning
                        ''Please sync again, and post on the support forum if this message keeps appearing.''
                        s1, None)
                 | _ \<Rightarrow> (showWarning (''Unexpected error: '' @ msg) s1, None))
            | NetworkError nkind msg \<Rightarrow>
                (if nkind = OFFLINE \<or> nkind = TIMEOUT
                 then (showWarning
                         (''Syncing failed; please check your internet connection.''
                          @ [CHR 0x0A, CHR 0x0A] @ ''Detailed error: '' @ msg) s1, None)
                 else (showWarning (''Unexpected error: '' @ msg) s1, None))
            | DBError msg \<Rightarrow>
                (showWarning (''Problem accessing the media database: '' @ msg) s1, None)
            | _ \<Rightarrow> (s1, Some exc)))"

text \<open>\<open>_on_finished\<close>; \<open>future.exception()\<close> is the argument \<open>exc\<close>.\<close>

definition on_finished :: "int \<Rightarrow> exception option \<Rightarrow> MediaSyncer \<Rightarrow> MediaSyncer \<times> exception option" where
  "on_finished now exc s =
     (let s1 = s\<lparr>syncing := False\<rparr>;
          s2 = s1\<lparr>did_start_or_stop := did_start_or_stop s1 @ [False]\<rparr>
      in case exc of
           Some e \<Rightarrow> handle_sync_error now e s2
         | None \<Rightarrow> (log_and_notify now (StrEntry ''Media sync complete.'') s2, None))"

definition entries :: "MediaSyncer \<Rightarrow> LogEntryWithTime list" where
  "entries s = log s"

definition is_syncing :: "MediaSyncer \<Rightarrow> bool" where
  "is_syncing s = syncing s"

definition abort :: "int \<Rightarrow> MediaSyncer \<Rightarrow> MediaSyncer" where
  "abort now s =
     (if \<not> is_syncing s then s
      else (log_and_notify now (StrEntry ''Media sync aborting...'') s)\<lparr>want_stop := True\<rparr>)"

definition seconds_since_last_sync :: "int \<Rightarrow> MediaSyncer \<Rightarrow> int" where
  "seconds_since_last_sync now s =
     (if is_syncing s then 0
      else
        (let lst = (if log s \<noteq> [] then time (last (log s)) else 0)
         in now - lst))"

text \<open>
  The calls that can reach the object while a run is in the background and has not
  finished: \<open>start\<close>, \<open>abort\<close>, and the backend's progress callback. \<open>calls\<close> makes a
  list of them in order.
\<close>

datatype call = CallStart int | CallAbort int | CallProgress int bool Progress

fun do_call :: "call \<Rightarrow> MediaSyncer \<Rightarrow> MediaSyncer" where
  "do_call (CallStart now) s = start now s"
| "do_call (CallAbort now) s = abort now s"
| "do_call (CallProgress now proceed progress) s = fst (on_rust_progress now proceed progress s)"

fun calls :: "call list \<Rightarrow> MediaSyncer \<Rightarrow> MediaSyncer" where
  "calls [] s = s"
| "calls (c # cs) s = calls cs (do_call c s)"

text \<open>
  The life of the syncer: the calls above, and the completion callback \<open>_on_finished\<close>,
  which the task manager makes once for a run it was given, so only while a run is in
  flight. The runs in flight are the runs given to the background less the completions,
  each of which sent one stop notification. \<open>run_events\<close> is \<open>None\<close> for a list of
  events that has a completion with no run in flight.
\<close>

datatype event = Call call | Finished int "exception option"

definition in_flight :: "MediaSyncer \<Rightarrow> int" where
  "in_flight s =
     int (length (background s)) - int (length (filter (\<lambda>running. \<not> running) (did_start_or_stop s)))"

fun run_events :: "event list \<Rightarrow> MediaSyncer \<Rightarrow> MediaSyncer option" where
  "run_events [] s = Some s"
| "run_events (Call c # es) s = run_events es (do_call c s)"
| "run_events (Finished now exc # es) s =
     (if 0 < in_flight s then run_events es (fst (on_finished now exc s)) else None)"

text \<open>
  Single flight: one run is in flight while the syncer is syncing, none while it is not.
\<close>

definition single_flight :: "MediaSyncer \<Rightarrow> bool" where
  "single_flight s = (in_flight s = (if syncing s then 1 else 0))"

section \<open>Properties of the notes\<close>

subsection \<open>Built-ins\<close>

lemma split_on_nonempty: "split_on sep s \<noteq> []"
  by (induction s) (auto split: list.splits)

lemma list_getitem_0_Cons: "list_getitem (x # xs) 0 = Inr x"
  by (simp add: list_getitem_def py_index_def)

lemma list_getitem_0_hd: "xs \<noteq> [] \<Longrightarrow> list_getitem xs 0 = Inr (hd xs)"
  by (cases xs) (simp_all add: list_getitem_0_Cons)

lemma py_index_nonneg: "0 \<le> i \<Longrightarrow> i < int (length xs) \<Longrightarrow> py_index xs i = Some i"
  by (simp add: py_index_def)

lemma py_index_neg:
  "i < 0 \<Longrightarrow> - int (length xs) \<le> i \<Longrightarrow> py_index xs i = Some (int (length xs) + i)"
  by (simp add: py_index_def)

lemma py_index_length_update: "py_index (xs[k := v]) i = py_index xs i"
  by (simp add: py_index_def)

text \<open>Writing at a valid index and reading at the same index gives the value written.\<close>

lemma list_set_get:
  assumes "- int (length xs) \<le> i" and "i < int (length xs)"
  shows "\<exists>ys. list_setitem xs i v = Inr ys \<and> list_getitem ys i = Inr v"
proof (cases "i < 0")
  case True
  let ?j = "nat (int (length xs) + i)"
  have p: "py_index xs i = Some (int (length xs) + i)"
    using True assms(1) by (rule py_index_neg)
  have lt: "?j < length xs" using True assms(1) by linarith
  have "list_setitem xs i v = Inr (xs[?j := v])"
    by (simp add: list_setitem_def p)
  moreover have "list_getitem (xs[?j := v]) i = Inr v"
    using lt by (simp add: list_getitem_def py_index_length_update p)
  ultimately show ?thesis by blast
next
  case False
  then have nn: "0 \<le> i" by simp
  have p: "py_index xs i = Some i" using nn assms(2) by (rule py_index_nonneg)
  have lt: "nat i < length xs" using nn assms(2) by linarith
  have "list_setitem xs i v = Inr (xs[nat i := v])"
    by (simp add: list_setitem_def p)
  moreover have "list_getitem (xs[nat i := v]) i = Inr v"
    using lt by (simp add: list_getitem_def py_index_length_update p)
  ultimately show ?thesis by blast
qed

text \<open>Outside the valid indices both raise IndexError.\<close>

lemma list_index_out_of_range:
  "int (length xs) \<le> i \<Longrightarrow>
   list_getitem xs i = Inl IndexError \<and> list_setitem xs i v = Inl IndexError"
  by (simp add: list_getitem_def list_setitem_def py_index_def)

lemma dropWhile_all_iff: "(\<forall>x \<in> set (dropWhile P xs). P x) \<longleftrightarrow> (\<forall>x \<in> set xs. P x)"
proof
  assume a: "\<forall>x \<in> set (dropWhile P xs). P x"
  have "dropWhile P xs = []"
  proof (rule ccontr)
    assume ne: "dropWhile P xs \<noteq> []"
    then have "\<not> P (hd (dropWhile P xs))" by (rule hd_dropWhile)
    moreover have "hd (dropWhile P xs) \<in> set (dropWhile P xs)" using ne by simp
    ultimately show False using a by blast
  qed
  then show "\<forall>x \<in> set xs. P x" by (simp add: dropWhile_eq_Nil_conv)
next
  assume "\<forall>x \<in> set xs. P x"
  then show "\<forall>x \<in> set (dropWhile P xs). P x" by (auto dest: set_dropWhileD)
qed

text \<open>A string strips to the empty string exactly when it is empty or all whitespace.\<close>

lemma strip_empty_iff: "strip s = [] \<longleftrightarrow> (\<forall>c \<in> set s. py_isspace c)"
  by (simp add: strip_def dropWhile_eq_Nil_conv dropWhile_all_iff)

subsection \<open>Duplicate check\<close>

text \<open>
  The loop returns \<open>Duplicate\<close> exactly when one of the rows it is given has a first
  field that strips to the same text as the note's, provided the splitter never returns
  an empty list (as \<open>str.split\<close> never does).
\<close>

lemma dupe_loop_result:
  assumes "\<And>flds. splitFields flds \<noteq> []"
  shows "dupe_loop stripHTMLMedia splitFields fld cands =
     Inr (if \<exists>flds \<in> set cands. stripHTMLMedia (hd (splitFields flds)) = stripHTMLMedia fld
          then Duplicate else Unique)"
  using assms by (induction cands) (simp_all add: list_getitem_0_hd)

text \<open>
  C1. For a note whose first field \<open>fld\<close> is not empty after stripping whitespace,
  \<open>dupeOrEmpty\<close> looks at the rows of the notes table that have the checksum of \<open>fld\<close>,
  the note's note type id and another id than the note's, and returns \<open>Duplicate\<close>
  exactly when the first field of one of these rows, stripped of HTML and media, equals
  the stripped \<open>fld\<close>; otherwise it returns \<open>Unique\<close>. The field splitter is taken to
  return at least one field for every string, as \<open>str.split\<close> does.
\<close>

theorem dupeOrEmpty_duplicate_iff:
  assumes "fields_note n = fld # rest" and "strip fld \<noteq> []"
    and "\<And>flds. splitFields flds \<noteq> []"
  shows "dupeOrEmpty fieldChecksum stripHTMLMedia splitFields db n =
     Inr (if \<exists>r \<in> set db. row_csum r = fieldChecksum fld \<and> row_id r \<noteq> id_note n
               \<and> row_mid r = mid n
               \<and> stripHTMLMedia (hd (splitFields (row_flds r))) = stripHTMLMedia fld
          then Duplicate else Unique)"
  using assms(1,2)
  by (auto simp: dupeOrEmpty_def list_getitem_0_Cons dupe_loop_result[OF assms(3)]
        select_flds_def)

text \<open>
  An instance: the checksum is the length of the text without asterisks, stripping
  removes asterisks, fields are separated by the unit separator. The table holds a note
  of the same note type whose first field differs from the new note's only by asterisks.
\<close>

theorem dupeOrEmpty_duplicate_iff_witness:
  "dupeOrEmpty (\<lambda>s. int (length (filter (\<lambda>c. c \<noteq> CHR ''*'') s)))
     (filter (\<lambda>c. c \<noteq> CHR ''*'')) (split_on (CHR 0x1F))
     [\<lparr>row_id = 1, row_mid = 7, row_csum = 5, row_flds = ''*Hello*'' @ [CHR 0x1F] @ ''World''\<rparr>,
      \<lparr>row_id = 2, row_mid = 8, row_csum = 5, row_flds = ''Hallo'' @ [CHR 0x1F] @ ''Welt''\<rparr>]
     (\<lparr>id_note = 0, guid = ''g'', mid = 7, mod_note = 0, usn = 0, tags = [],
       fields_note = [''Hello'', ''Back''], fmap = Map.empty\<rparr> :: unit Note)
   = Inr Duplicate
   \<and> dupeOrEmpty (\<lambda>s. int (length (filter (\<lambda>c. c \<noteq> CHR ''*'') s)))
     (filter (\<lambda>c. c \<noteq> CHR ''*'')) (split_on (CHR 0x1F))
     [\<lparr>row_id = 1, row_mid = 7, row_csum = 5, row_flds = ''*Hello*'' @ [CHR 0x1F] @ ''World''\<rparr>,
      \<lparr>row_id = 2, row_mid = 8, row_csum = 5, row_flds = ''Hallo'' @ [CHR 0x1F] @ ''Welt''\<rparr>]
     (\<lparr>id_note = 0, guid = ''g'', mid = 7, mod_note = 0, usn = 0, tags = [],
       fields_note = [''Hallo'', ''Back''], fmap = Map.empty\<rparr> :: unit Note)
   = Inr Unique"
proof -
  have sp: "\<And>flds. split_on (CHR 0x1F) flds \<noteq> []" by (rule split_on_nonempty)
  have s1: "strip ''Hello'' \<noteq> []" by (simp add: strip_def py_isspace_def)
  have s2: "strip ''Hallo'' \<noteq> []" by (simp add: strip_def py_isspace_def)
  show ?thesis
    by (simp add: dupeOrEmpty_duplicate_iff[where fld = "''Hello''" and rest = "[''Back'']", OF _ s1 sp]
          dupeOrEmpty_duplicate_iff[where fld = "''Hallo''" and rest = "[''Back'']", OF _ s2 sp])
qed

text \<open>
  C7. For a note whose first field is empty after stripping whitespace (it is empty or
  all whitespace, by \<open>strip_empty_iff\<close>), \<open>dupeOrEmpty\<close> returns \<open>Empty\<close>, whatever
  the notes table holds and whatever the checksum, the stripping and the splitter are.
\<close>

theorem dupeOrEmpty_empty:
  "fields_note n = fld # rest \<Longrightarrow> strip fld = [] \<Longrightarrow>
   dupeOrEmpty fieldChecksum stripHTMLMedia splitFields db n = Inr Empty"
  by (simp add: dupeOrEmpty_def list_getitem_0_Cons)

theorem dupeOrEmpty_empty_witness:
  "dupeOrEmpty (\<lambda>s. int (length s)) (\<lambda>s. s) (split_on (CHR 0x1F))
     [\<lparr>row_id = 1, row_mid = 7, row_csum = 3, row_flds = '' '' @ [CHR 0x09, CHR 0x0A]\<rparr>]
     (\<lparr>id_note = 0, guid = ''g'', mid = 7, mod_note = 0, usn = 0, tags = [],
       fields_note = ['' '' @ [CHR 0x09, CHR 0x0A], ''Back''], fmap = Map.empty\<rparr> :: unit Note)
   = Inr Empty"
proof -
  have s1: "strip ('' '' @ [CHR 0x09, CHR 0x0A]) = []" by (simp add: strip_def py_isspace_def)
  show ?thesis
    by (rule dupeOrEmpty_empty[where rest = "[''Back'']", OF _ s1]) simp
qed

subsection \<open>Dict interface\<close>

text \<open>
  C9. For a key of the field map whose ordinal is an index of the note's list of fields
  (the data model's invariant: the field map names the positions of that list; Python
  also accepts the negative indices), setting the key to \<open>v\<close> and then getting it
  returns \<open>v\<close>. For a key that is not in the field map, getting and setting both fail
  with \<open>KeyError\<close> of that key.
\<close>

theorem setitem_getitem_roundtrip:
  "(fmap n k = Some (ord, f) \<and> - int (length (fields_note n)) \<le> ord
        \<and> ord < int (length (fields_note n))
      \<longrightarrow> (\<exists>n'. setitem n k v = Inr n' \<and> getitem n' k = Inr v))
   \<and> (fmap n k = None \<longrightarrow> getitem n k = Inl (KeyError k) \<and> setitem n k v = Inl (KeyError k))"
proof (intro conjI impI)
  assume a: "fmap n k = Some (ord, f) \<and> - int (length (fields_note n)) \<le> ord
        \<and> ord < int (length (fields_note n))"
  then obtain ys where ys: "list_setitem (fields_note n) ord v = Inr ys" "list_getitem ys ord = Inr v"
    using list_set_get[of "fields_note n" ord v] by blast
  have "setitem n k v = Inr (n\<lparr>fields_note := ys\<rparr>)"
    using a ys by (simp add: setitem_def fieldOrd_def)
  moreover have "getitem (n\<lparr>fields_note := ys\<rparr>) k = Inr v"
    using a ys by (simp add: getitem_def fieldOrd_def)
  ultimately show "\<exists>n'. setitem n k v = Inr n' \<and> getitem n' k = Inr v" by blast
next
  assume "fmap n k = None"
  then show "getitem n k = Inl (KeyError k)" by (simp add: getitem_def fieldOrd_def)
next
  assume "fmap n k = None"
  then show "setitem n k v = Inl (KeyError k)" by (simp add: setitem_def fieldOrd_def)
qed

theorem setitem_getitem_roundtrip_witness:
  "(\<exists>n'. setitem (\<lparr>id_note = 3, guid = ''g'', mid = 7, mod_note = 0, usn = 0, tags = [],
                    fields_note = [''Hello'', ''World''],
                    fmap = [''Front'' \<mapsto> (0, ()), ''Back'' \<mapsto> (1, ())]\<rparr> :: unit Note)
            ''Back'' ''Welt'' = Inr n' \<and> getitem n' ''Back'' = Inr ''Welt'')
   \<and> getitem (\<lparr>id_note = 3, guid = ''g'', mid = 7, mod_note = 0, usn = 0, tags = [],
                fields_note = [''Hello'', ''World''],
                fmap = [''Front'' \<mapsto> (0, ()), ''Back'' \<mapsto> (1, ())]\<rparr> :: unit Note)
        ''Extra'' = Inl (KeyError ''Extra'')
   \<and> setitem (\<lparr>id_note = 3, guid = ''g'', mid = 7, mod_note = 0, usn = 0, tags = [],
                fields_note = [''Hello'', ''World''],
                fmap = [''Front'' \<mapsto> (0, ()), ''Back'' \<mapsto> (1, ())]\<rparr> :: unit Note)
        ''Extra'' ''Welt'' = Inl (KeyError ''Extra'')"
  using setitem_getitem_roundtrip[where k = "''Back''" and ord = 1 and f = "()" and v = "''Welt''"
          and n = "\<lparr>id_note = 3, guid = ''g'', mid = 7, mod_note = 0, usn = 0, tags = [],
                fields_note = [''Hello'', ''World''],
                fmap = [''Front'' \<mapsto> (0, ()), ''Back'' \<mapsto> (1, ())]\<rparr>"]
        setitem_getitem_roundtrip[where k = "''Extra''" and ord = 1 and f = "()" and v = "''Welt''"
          and n = "\<lparr>id_note = 3, guid = ''g'', mid = 7, mod_note = 0, usn = 0, tags = [],
                fields_note = [''Hello'', ''World''],
                fmap = [''Front'' \<mapsto> (0, ()), ''Back'' \<mapsto> (1, ())]\<rparr>"]
  by simp

subsection \<open>Flush\<close>

text \<open>
  C10. \<open>flush\<close> on a note whose id is 0 fails its assertion, and nothing reaches the
  backend. When \<open>flush\<close> succeeds, the id was not 0, the note is the one the hook
  returned (\<open>flush\<close> itself assigns no attribute, so no id), and the backend received
  \<open>update_note\<close> of that note's message, which carries the note's id.
\<close>

theorem flush_requires_id:
  "(id_note n = 0 \<longrightarrow> flush note_will_flush update_note n backend = Inl AssertionError)
   \<and> (flush note_will_flush update_note n backend = Inr (n', backend')
        \<longrightarrow> id_note n \<noteq> 0 \<and> n' = note_will_flush n
            \<and> backend' = update_note (snd (to_backend_note note_will_flush n)) backend
            \<and> bn_id (snd (to_backend_note note_will_flush n)) = id_note (note_will_flush n))"
  by (auto simp: flush_def to_backend_note_def Let_def split: if_splits)

text \<open>An instance: the backend is the list of the messages it received, no hook is set.\<close>

theorem flush_requires_id_witness:
  "flush (\<lambda>n. n) (\<lambda>bn b. b @ [bn])
     (\<lparr>id_note = 0, guid = ''g'', mid = 7, mod_note = 0, usn = 0, tags = [],
       fields_note = [''Hello'', ''World''], fmap = Map.empty\<rparr> :: unit Note) []
   = Inl AssertionError
   \<and> flush (\<lambda>n. n) (\<lambda>bn b. b @ [bn])
     (\<lparr>id_note = 5, guid = ''g'', mid = 7, mod_note = 0, usn = 0, tags = [],
       fields_note = [''Hello'', ''World''], fmap = Map.empty\<rparr> :: unit Note) []
   = Inr (\<lparr>id_note = 5, guid = ''g'', mid = 7, mod_note = 0, usn = 0, tags = [],
            fields_note = [''Hello'', ''World''], fmap = Map.empty\<rparr>,
          [\<lparr>bn_id = 5, bn_guid = ''g'', bn_ntid = 7, bn_mtime_secs = 0, bn_usn = 0,
            bn_tags = [], bn_fields = [''Hello'', ''World'']\<rparr>])"
  using flush_requires_id[where note_will_flush = "\<lambda>n. n" and update_note = "\<lambda>bn b. b @ [bn]"
          and backend = "[]"
          and n = "\<lparr>id_note = 0, guid = ''g'', mid = 7, mod_note = 0, usn = 0, tags = [],
                   fields_note = [''Hello'', ''World''], fmap = Map.empty\<rparr> :: unit Note"]
        flush_requires_id[where note_will_flush = "\<lambda>n. n" and update_note = "\<lambda>bn b. b @ [bn]"
          and backend = "[]"
          and n = "\<lparr>id_note = 5, guid = ''g'', mid = 7, mod_note = 0, usn = 0, tags = [],
                   fields_note = [''Hello'', ''World''], fmap = Map.empty\<rparr> :: unit Note"
          and n' = "\<lparr>id_note = 5, guid = ''g'', mid = 7, mod_note = 0, usn = 0, tags = [],
                   fields_note = [''Hello'', ''World''], fmap = Map.empty\<rparr>"
          and backend' = "[\<lparr>bn_id = 5, bn_guid = ''g'', bn_ntid = 7, bn_mtime_secs = 0,
                   bn_usn = 0, bn_tags = [], bn_fields = [''Hello'', ''World'']\<rparr>]"]
  by (simp add: flush_def to_backend_note_def)

section \<open>Properties of the media syncer\<close>

subsection \<open>Logging and warnings\<close>

lemma log_log_and_notify: "log (log_and_notify now e s) = log s @ [\<lparr>time = now, entry = e\<rparr>]"
  by (simp add: log_and_notify_def Let_def)

lemma warnings_log_and_notify: "warnings (log_and_notify now e s) = warnings s"
  by (simp add: log_and_notify_def Let_def)

lemma log_showWarning: "log (showWarning w s) = log s"
  by (simp add: showWarning_def)

lemma warnings_showWarning: "warnings (showWarning w s) = warnings s @ [w]"
  by (simp add: showWarning_def)

subsection \<open>Time since the last sync\<close>

text \<open>
  C2, as the code has it. \<open>seconds_since_last_sync\<close> returns 0 while a sync is in
  progress; otherwise the current time minus the time of the last log entry; and, when
  the log is empty, the current time itself (the current time minus 0), not 0.
\<close>

theorem seconds_since_last_sync_value:
  "seconds_since_last_sync now s =
     (if syncing s then 0 else if log s = [] then now else now - time (last (log s)))"
  by (simp add: seconds_since_last_sync_def is_syncing_def)

text \<open>The claim that an empty log gives 0 fails on a syncer that never synced.\<close>

theorem seconds_since_last_sync_counterexample:
  "seconds_since_last_sync 1600000000 (init (Some ''key'') True None) = 1600000000
   \<and> seconds_since_last_sync 1600000000 (init (Some ''key'') True None) \<noteq> 0"
  by (simp add: seconds_since_last_sync_def is_syncing_def init_def)

theorem seconds_since_last_sync_value_witness:
  "seconds_since_last_sync 130 (fst (on_finished 100 None (start 90 (init (Some ''key'') True None))))
     = 30
   \<and> seconds_since_last_sync 95 (start 90 (init (Some ''key'') True None)) = 0"
  by (simp add: seconds_since_last_sync_value on_finished_def start_def init_def
        log_and_notify_def Let_def)

subsection \<open>Starting\<close>

text \<open>
  C3, as the code has it. With no sync key \<open>start\<close> changes nothing: it does not start
  and it writes no log entry. With a sync key and media syncing disabled, \<open>start\<close> on
  an idle syncer appends the one entry "Media syncing disabled." to the log. In both
  cases the syncing flag, the cancellation flag and the background runs stay as they
  were.
\<close>

theorem start_did_not_start:
  "(sync_key s = None \<longrightarrow> start now s = s)
   \<and> (\<not> syncing s \<and> sync_key s \<noteq> None \<and> \<not> media_syncing_enabled s \<longrightarrow>
        start now s = log_and_notify now (StrEntry ''Media syncing disabled.'') s
        \<and> log (start now s) = log s @ [\<lparr>time = now, entry = StrEntry ''Media syncing disabled.''\<rparr>])
   \<and> (sync_key s = None \<or> \<not> media_syncing_enabled s \<longrightarrow>
        syncing (start now s) = syncing s \<and> want_stop (start now s) = want_stop s
        \<and> background (start now s) = background s)"
  by (auto simp: start_def log_and_notify_def Let_def split: option.splits)

text \<open>The claim that a log entry is written in both cases fails when there is no key.\<close>

theorem start_without_key_counterexample:
  "log (start 1600000000 (init None True None)) = []
   \<and> did_progress (start 1600000000 (init None True None)) = []"
  by (simp add: start_def init_def)

theorem start_did_not_start_witness:
  "start 1600000000 (init None True None) = init None True None
   \<and> log (start 1600000000 (init (Some ''key'') False None))
       = [\<lparr>time = 1600000000, entry = StrEntry ''Media syncing disabled.''\<rparr>]
   \<and> syncing (start 1600000000 (init (Some ''key'') False None)) = False
   \<and> background (start 1600000000 (init (Some ''key'') False None)) = []"
proof -
  have a: "sync_key (init None True None) = None" by (simp add: init_def)
  have b: "\<not> syncing (init (Some ''key'') False None)
           \<and> sync_key (init (Some ''key'') False None) \<noteq> None
           \<and> \<not> media_syncing_enabled (init (Some ''key'') False None)"
    by (simp add: init_def)
  have l: "log (init (Some ''key'') False None) = []"
    and f: "syncing (init (Some ''key'') False None) = False"
    and g: "background (init (Some ''key'') False None) = []"
    by (simp_all add: init_def)
  have 1: "start 1600000000 (init None True None) = init None True None"
    using a start_did_not_start[of "init None True None" 1600000000] by blast
  have 2: "log (start 1600000000 (init (Some ''key'') False None))
             = log (init (Some ''key'') False None)
               @ [\<lparr>time = 1600000000, entry = StrEntry ''Media syncing disabled.''\<rparr>]"
    using b start_did_not_start[of "init (Some ''key'') False None" 1600000000] by blast
  have 3: "syncing (start 1600000000 (init (Some ''key'') False None))
             = syncing (init (Some ''key'') False None)
           \<and> background (start 1600000000 (init (Some ''key'') False None))
             = background (init (Some ''key'') False None)"
    using b start_did_not_start[of "init (Some ''key'') False None" 1600000000] by blast
  show ?thesis using 1 2 3 l f g by simp
qed

text \<open>
  C4. While a sync is running, \<open>start\<close> returns the state unchanged: the syncing flag,
  the cancellation flag, the log and the list of background runs are as before, so no
  second run is given to the background.
\<close>

theorem start_while_syncing:
  "syncing s \<Longrightarrow>
   start now s = s \<and> syncing (start now s) = syncing s \<and> want_stop (start now s) = want_stop s
   \<and> log (start now s) = log s \<and> background (start now s) = background s"
  by (simp add: start_def)

theorem start_while_syncing_witness:
  "syncing (start 90 (init (Some ''key'') True None))
   \<and> start 95 (start 90 (init (Some ''key'') True None)) = start 90 (init (Some ''key'') True None)
   \<and> background (start 95 (start 90 (init (Some ''key'') True None))) = [''key'']"
proof -
  have h: "syncing (start 90 (init (Some ''key'') True None))"
    by (simp add: start_def init_def log_and_notify_def Let_def)
  have b: "background (start 90 (init (Some ''key'') True None)) = [''key'']"
    by (simp add: start_def init_def log_and_notify_def Let_def)
  show ?thesis using h b start_while_syncing[OF h, of 95] by simp
qed

subsection \<open>Aborting\<close>

text \<open>
  C8. \<open>abort\<close> on a syncer that is not syncing changes nothing. On a syncer that is
  syncing it appends the one entry "Media sync aborting..." to the log and sets the
  cancellation flag; the syncing flag stays set, and the background runs and the
  start/stop notifications are as before.
\<close>

theorem abort_effect:
  "(\<not> syncing s \<longrightarrow> abort now s = s)
   \<and> (syncing s \<longrightarrow>
        log (abort now s) = log s @ [\<lparr>time = now, entry = StrEntry ''Media sync aborting...''\<rparr>]
        \<and> want_stop (abort now s) \<and> syncing (abort now s)
        \<and> background (abort now s) = background s
        \<and> did_start_or_stop (abort now s) = did_start_or_stop s)"
  by (simp add: abort_def is_syncing_def log_and_notify_def Let_def)

theorem abort_effect_witness:
  "abort 95 (init (Some ''key'') True None) = init (Some ''key'') True None
   \<and> log (abort 95 (start 90 (init (Some ''key'') True None)))
       = [\<lparr>time = 90, entry = StrEntry ''Media sync starting...''\<rparr>,
          \<lparr>time = 95, entry = StrEntry ''Media sync aborting...''\<rparr>]
   \<and> want_stop (abort 95 (start 90 (init (Some ''key'') True None)))
   \<and> syncing (abort 95 (start 90 (init (Some ''key'') True None)))"
proof -
  have i: "\<not> syncing (init (Some ''key'') True None)" by (simp add: init_def)
  have h: "syncing (start 90 (init (Some ''key'') True None))"
    by (simp add: start_def init_def log_and_notify_def Let_def)
  have l: "log (start 90 (init (Some ''key'') True None))
             = [\<lparr>time = 90, entry = StrEntry ''Media sync starting...''\<rparr>]"
    by (simp add: start_def init_def log_and_notify_def Let_def)
  show ?thesis
    using i h l abort_effect[of "init (Some ''key'') True None" 95]
      abort_effect[of "start 90 (init (Some ''key'') True None)" 95]
    by simp
qed

subsection \<open>Cancellation\<close>

text \<open>
  While a run is in progress and the cancellation flag is set, none of the calls that
  can reach the syncer clears either flag: \<open>start\<close> returns at once, \<open>abort\<close> sets
  the flag again, the progress callback writes neither.
\<close>

lemma do_call_keeps_stop:
  "syncing s \<and> want_stop s \<Longrightarrow> syncing (do_call c s) \<and> want_stop (do_call c s)"
  by (cases c)
     (auto simp: start_def abort_def is_syncing_def on_rust_progress_def log_and_notify_def
        Let_def)

lemma calls_keep_stop:
  "syncing s \<and> want_stop s \<Longrightarrow> syncing (calls cs s) \<and> want_stop (calls cs s)"
proof (induction cs arbitrary: s)
  case Nil
  then show ?case by simp
next
  case (Cons c cs)
  have "syncing (do_call c s) \<and> want_stop (do_call c s)"
    using Cons.prems by (rule do_call_keeps_stop)
  then show ?case using Cons.IH by simp
qed

lemma abort_sets_stop: "syncing s \<Longrightarrow> syncing (abort now s) \<and> want_stop (abort now s)"
  by (simp add: abort_def is_syncing_def log_and_notify_def Let_def)

text \<open>
  C5. After \<open>abort\<close> during a run, and after any further calls of \<open>start\<close>, \<open>abort\<close>
  and the progress callback made while that run is in progress, the progress callback
  on a media sync progress event returns False, whatever value the backend passed as
  \<open>proceed\<close>.
\<close>

theorem progress_after_abort_stops:
  assumes "syncing s" and "kind progress = KindMediaSyncProgress"
  shows "snd (on_rust_progress now proceed progress (calls cs (abort t s))) = False"
proof -
  have "want_stop (calls cs (abort t s))"
    using calls_keep_stop[OF abort_sets_stop[OF assms(1)]] by simp
  then show ?thesis
    using assms(2) by (simp add: on_rust_progress_def log_and_notify_def Let_def)
qed

theorem progress_after_abort_stops_witness:
  "snd (on_rust_progress 99 True \<lparr>kind = KindMediaSyncProgress, val = StrEntry ''p''\<rparr>
          (calls [CallProgress 96 True \<lparr>kind = KindMediaSyncProgress, val = StrEntry ''q''\<rparr>,
                  CallStart 97,
                  CallProgress 98 True \<lparr>kind = KindOther, val = StrEntry ''r''\<rparr>]
             (abort 95 (start 90 (init (Some ''key'') True None))))) = False"
proof -
  have h: "syncing (start 90 (init (Some ''key'') True None))"
    by (simp add: start_def init_def log_and_notify_def Let_def)
  have k: "kind \<lparr>kind = KindMediaSyncProgress, val = StrEntry ''p''\<rparr> = KindMediaSyncProgress"
    by simp
  show ?thesis by (rule progress_after_abort_stops[OF h k])
qed

subsection \<open>Failures of a run\<close>

lemma handle_interrupted:
  "handle_sync_error now Interrupted s
     = (log_and_notify now (StrEntry ''Media sync aborted.'') s, None)"
  by (simp add: handle_sync_error_def)

lemma handle_other:
  "handle_sync_error now (OtherException m) s =
     (log_and_notify now (StrEntry ''Media sync failed.'') s, Some (OtherException m))"
  by (simp add: handle_sync_error_def)

lemma handle_db:
  "handle_sync_error now (DBError m) s =
     (showWarning (''Problem accessing the media database: '' @ m)
        (log_and_notify now (StrEntry ''Media sync failed.'') s), None)"
  by (simp add: handle_sync_error_def)

lemma handle_network:
  "handle_sync_error now (NetworkError k m) s =
     (showWarning
        (if k = OFFLINE \<or> k = TIMEOUT
         then ''Syncing failed; please check your internet connection.''
              @ [CHR 0x0A, CHR 0x0A] @ ''Detailed error: '' @ m
         else ''Unexpected error: '' @ m)
        (log_and_notify now (StrEntry ''Media sync failed.'') s), None)"
  by (simp add: handle_sync_error_def Let_def)

lemma handle_sync:
  "handle_sync_error now (SyncError k m) s =
     (let s1 = log_and_notify now (StrEntry ''Media sync failed.'') s in
      case k of
        AUTH_FAILED \<Rightarrow>
          (showWarning ''AnkiWeb ID or password was incorrect; please try again.''
             (s1\<lparr>sync_key := None\<rparr>), None)
      | SERVER_ERROR \<Rightarrow>
          (showWarning ''AnkiWeb encountered a problem. Please try again in a few minutes.'' s1,
           None)
      | MEDIA_CHECK_REQUIRED \<Rightarrow>
          (showWarning ''Please use the Tools>Check Media menu option.'' s1, None)
      | RESYNC_REQUIRED \<Rightarrow>
          (showWarning
             ''Please sync again, and post on the support forum if this message keeps appearing.''
             s1, None)
      | SYNC_OTHER \<Rightarrow> (showWarning (''Unexpected error: '' @ m) s1, None))"
  by (simp add: handle_sync_error_def Let_def)

lemma handle_sync_parts:
  "snd (handle_sync_error now (SyncError k m) s) = None
   \<and> log (fst (handle_sync_error now (SyncError k m) s))
       = log s @ [\<lparr>time = now, entry = StrEntry ''Media sync failed.''\<rparr>]
   \<and> (\<exists>w. warnings (fst (handle_sync_error now (SyncError k m) s)) = warnings s @ [w])"
  unfolding handle_sync
  by (cases k)
     (simp_all add: Let_def log_showWarning warnings_showWarning log_log_and_notify
        warnings_log_and_notify)

lemma handle_network_parts:
  "snd (handle_sync_error now (NetworkError k m) s) = None
   \<and> log (fst (handle_sync_error now (NetworkError k m) s))
       = log s @ [\<lparr>time = now, entry = StrEntry ''Media sync failed.''\<rparr>]
   \<and> (\<exists>w. warnings (fst (handle_sync_error now (NetworkError k m) s)) = warnings s @ [w])"
  unfolding handle_network
  by (simp add: log_showWarning warnings_showWarning log_log_and_notify warnings_log_and_notify)

lemma handle_db_parts:
  "snd (handle_sync_error now (DBError m) s) = None
   \<and> log (fst (handle_sync_error now (DBError m) s))
       = log s @ [\<lparr>time = now, entry = StrEntry ''Media sync failed.''\<rparr>]
   \<and> (\<exists>w. warnings (fst (handle_sync_error now (DBError m) s)) = warnings s @ [w])"
  unfolding handle_db
  by (simp add: log_showWarning warnings_showWarning log_log_and_notify warnings_log_and_notify)

text \<open>
  \<open>_on_finished\<close> hands a failure to \<open>_handle_sync_error\<close> after clearing the syncing
  flag and notifying of the stop; the log and the warnings it passes on are the ones it
  was given.
\<close>

lemma on_finished_failure:
  "on_finished now (Some e) s
     = handle_sync_error now e
         (s\<lparr>syncing := False, did_start_or_stop := did_start_or_stop s @ [False]\<rparr>)"
  by (simp add: on_finished_def Let_def)

text \<open>
  C6, as the code has it. A sync error, a network error and a database error are not
  raised again: each appends the one entry "Media sync failed." to the log and shows
  exactly one warning. A cancellation is not raised again either, and appends the one
  entry "Media sync aborted.", but shows no warning. Any other exception is the only one
  raised again; "Media sync failed." has been logged by then, and no warning is shown.
\<close>

theorem handle_sync_error_policy:
  "(let r = handle_sync_error now exc s in
     snd r = (case exc of OtherException m \<Rightarrow> Some exc | _ \<Rightarrow> None)
     \<and> log (fst r) = log s @ [\<lparr>time = now, entry = StrEntry
           (if exc = Interrupted then ''Media sync aborted.'' else ''Media sync failed.'')\<rparr>]
     \<and> (case exc of
          Interrupted \<Rightarrow> warnings (fst r) = warnings s
        | OtherException m \<Rightarrow> warnings (fst r) = warnings s
        | _ \<Rightarrow> (\<exists>w. warnings (fst r) = warnings s @ [w])))"
proof (cases exc)
  case Interrupted
  then show ?thesis
    by (simp add: handle_interrupted log_log_and_notify warnings_log_and_notify)
next
  case (SyncError k m)
  then show ?thesis using handle_sync_parts[of now k m s] by simp
next
  case (NetworkError k m)
  then show ?thesis using handle_network_parts[of now k m s] by simp
next
  case (DBError m)
  then show ?thesis using handle_db_parts[of now m s] by simp
next
  case (OtherException m)
  then show ?thesis
    by (simp add: handle_other log_log_and_notify warnings_log_and_notify)
qed

text \<open>
  The claim that a cancellation gives a user-facing message fails: a run that was
  started and then ends with \<open>Interrupted\<close> leaves the list of warnings empty.
\<close>

theorem handle_sync_error_interrupted_counterexample:
  "warnings (fst (on_finished 1600000000 (Some Interrupted)
                    (start 1599999990 (init (Some ''key'') True None)))) = []
   \<and> snd (on_finished 1600000000 (Some Interrupted)
                    (start 1599999990 (init (Some ''key'') True None))) = None"
  by (simp add: on_finished_failure handle_interrupted warnings_log_and_notify start_def
        init_def Let_def)

theorem handle_sync_error_policy_witness:
  "snd (handle_sync_error 1600000000 (SyncError AUTH_FAILED ''auth'')
          (start 1599999990 (init (Some ''key'') True None))) = None
   \<and> (\<exists>w. warnings (fst (handle_sync_error 1600000000 (SyncError AUTH_FAILED ''auth'')
          (start 1599999990 (init (Some ''key'') True None)))) = [w])
   \<and> snd (handle_sync_error 1600000000 (OtherException ''boom'')
          (start 1599999990 (init (Some ''key'') True None))) = Some (OtherException ''boom'')"
proof -
  have w: "warnings (start 1599999990 (init (Some ''key'') True None)) = []"
    by (simp add: start_def init_def log_and_notify_def Let_def)
  show ?thesis
    using w
      handle_sync_error_policy[of 1600000000 "SyncError AUTH_FAILED ''auth''"
        "start 1599999990 (init (Some ''key'') True None)"]
      handle_sync_error_policy[of 1600000000 "OtherException ''boom''"
        "start 1599999990 (init (Some ''key'') True None)"]
    by (simp add: Let_def)
qed

subsection \<open>Single flight\<close>

text \<open>
  From the initial state, after any events, exactly one run is in flight while the
  syncer is syncing and none while it is not; so never more than one.
\<close>

lemma in_flight_log_and_notify: "in_flight (log_and_notify now e s) = in_flight s"
  by (simp add: in_flight_def log_and_notify_def Let_def)

lemma syncing_log_and_notify: "syncing (log_and_notify now e s) = syncing s"
  by (simp add: log_and_notify_def Let_def)

lemma single_flight_start: "single_flight s \<Longrightarrow> single_flight (start now s)"
  by (auto simp: single_flight_def start_def in_flight_def log_and_notify_def Let_def
        split: option.splits if_splits)

lemma single_flight_abort: "single_flight s \<Longrightarrow> single_flight (abort now s)"
  by (auto simp: single_flight_def abort_def is_syncing_def in_flight_def log_and_notify_def
        Let_def split: if_splits)

lemma single_flight_progress:
  "single_flight s \<Longrightarrow> single_flight (fst (on_rust_progress now proceed progress s))"
  by (auto simp: single_flight_def on_rust_progress_def in_flight_def log_and_notify_def
        Let_def split: if_splits)

lemma single_flight_do_call: "single_flight s \<Longrightarrow> single_flight (do_call c s)"
  by (cases c) (simp_all add: single_flight_start single_flight_abort single_flight_progress)

lemma handle_sync_error_frame:
  "syncing (fst (handle_sync_error now exc s)) = syncing s
   \<and> in_flight (fst (handle_sync_error now exc s)) = in_flight s"
proof (cases exc)
  case Interrupted
  then show ?thesis
    by (simp add: handle_interrupted in_flight_log_and_notify syncing_log_and_notify)
next
  case (SyncError k m)
  then show ?thesis
    by (cases k)
       (simp_all add: handle_sync Let_def showWarning_def in_flight_def log_and_notify_def)
next
  case (NetworkError k m)
  then show ?thesis
    by (simp add: handle_network showWarning_def in_flight_def log_and_notify_def Let_def)
next
  case (DBError m)
  then show ?thesis
    by (simp add: handle_db showWarning_def in_flight_def log_and_notify_def Let_def)
next
  case (OtherException m)
  then show ?thesis
    by (simp add: handle_other in_flight_log_and_notify syncing_log_and_notify)
qed

lemma single_flight_on_finished:
  assumes "single_flight s" and "0 < in_flight s"
  shows "single_flight (fst (on_finished now exc s))"
proof -
  have sy: "syncing s" using assms by (auto simp: single_flight_def split: if_splits)
  then have one: "in_flight s = 1" using assms(1) by (simp add: single_flight_def)
  let ?s2 = "s\<lparr>syncing := False, did_start_or_stop := did_start_or_stop s @ [False]\<rparr>"
  have s2: "\<not> syncing ?s2 \<and> in_flight ?s2 = 0"
    using one by (simp add: in_flight_def)
  show ?thesis
  proof (cases exc)
    case None
    then have "fst (on_finished now exc s) = log_and_notify now (StrEntry ''Media sync complete.'') ?s2"
      by (simp add: on_finished_def Let_def)
    then show ?thesis
      using s2 by (simp add: single_flight_def in_flight_log_and_notify syncing_log_and_notify)
  next
    case (Some e)
    then have "fst (on_finished now exc s) = fst (handle_sync_error now e ?s2)"
      by (simp add: on_finished_failure)
    then show ?thesis
      using s2 handle_sync_error_frame[of now e ?s2] by (simp add: single_flight_def)
  qed
qed

lemma single_flight_run_events:
  "single_flight s \<Longrightarrow> run_events es s = Some s' \<Longrightarrow> single_flight s'"
proof (induction es s rule: run_events.induct)
  case (1 s)
  then show ?case by simp
next
  case (2 c es s)
  then show ?case by (simp add: single_flight_do_call)
next
  case (3 now exc es s)
  then show ?case by (auto simp: single_flight_on_finished split: if_splits)
qed

lemma single_flight_init: "single_flight (init hkey enabled shard)"
  by (simp add: single_flight_def in_flight_def init_def)

lemma at_most_one_in_flight:
  "run_events es (init hkey enabled shard) = Some s \<Longrightarrow> in_flight s \<le> 1"
  using single_flight_run_events[OF single_flight_init, of es hkey enabled shard s]
  by (simp add: single_flight_def split: if_splits)

end
